theory Spec2Isabelle
  imports Main "HOL-Library.Sublist"
begin

section \<open>Values exchanged with the runtime\<close>

text \<open>
  The worker of \<^verbatim>\<open>src/index.ts\<close> is glue between four capabilities of its runtime: the
  static-asset binding, the inference binding, the ambient network fetch and the
  request and response objects. A call that can throw, or a promise that can reject,
  returns \<open>error + 'a\<close> with \<open>Inl\<close> for the exception; \<open>await\<close> in a \<open>try\<close> block
  treats both alike.
\<close>

datatype error = SyntaxError | TypeError | ServiceError string

text \<open>
  What \<open>request.json()\<close> yields is any JSON value: the cast to
  \<open>{ messages: ChatMessage[] }\<close> in the source is not checked when the code runs. The
  code never looks at a number, so numbers are kept as integers. An object is the list
  of its members in order, each name once; \<open>map_of\<close> reads a member.
\<close>

datatype json =
    JNull
  | JBool bool
  | JNumber int
  | JString string
  | JArray "json list"
  | JObject "(string \<times> json) list"

text \<open>
  A URL object. A request never carries credentials in its URL, so there is no user name
  or password. The query and the fragment are absent (\<open>None\<close>) or present, and a present
  one may be empty; an empty port is the default port of the protocol.
\<close>

record URL =
  protocol :: string
  hostname :: string
  port :: string
  pathname :: string
  query :: "string option"
  fragment :: "string option"

text \<open>
  A string of the script is the list of its code units. The names and values of headers
  are byte strings: handing a script string to \<open>headers.set\<close> converts it, and the
  conversion throws a TypeError on a code unit above 255.
\<close>

type_synonym DOMString = "nat list"

type_synonym headers = "(string \<times> string) list"

type_synonym stream = "string list"

text \<open>
  The body of a request is a stream of chunks; \<open>body_json\<close> is what reading that body
  with \<open>json()\<close> gives, \<open>Inl SyntaxError\<close> when the text is not JSON.
\<close>

record request_body =
  body_stream :: stream
  body_json :: "error + json"

record request =
  req_url :: URL
  req_method :: string
  req_headers :: headers
  req_body :: "request_body option"

datatype body_init = Text string | Stream stream

record response =
  status :: nat
  res_headers :: headers
  res_body :: "body_init option"

record ai_inputs =
  messages :: json
  max_tokens :: nat
  stream :: bool

type_synonym ai_options = "(string \<times> json) list"

text \<open>The interface \<open>Env\<close> of \<^verbatim>\<open>types.ts\<close>; \<open>GROQ_API_KEY\<close> is optional.\<close>

record env =
  AI_run :: "string \<Rightarrow> ai_inputs \<Rightarrow> ai_options \<Rightarrow> error + stream"
  ASSETS_fetch :: "request \<Rightarrow> error + response"
  GROQ_API_KEY :: "DOMString option"

section \<open>Runtime operations the worker calls\<close>

definition startsWith :: "string \<Rightarrow> string \<Rightarrow> bool" where
  "startsWith s p = prefix p s"

definition and_then :: "error + 'a \<Rightarrow> ('a \<Rightarrow> error + 'b) \<Rightarrow> error + 'b" where
  "and_then m f = (case m of Inl e \<Rightarrow> Inl e | Inr v \<Rightarrow> f v)"

definition try_catch :: "error + 'a \<Rightarrow> (error \<Rightarrow> error + 'a) \<Rightarrow> error + 'a" where
  "try_catch block handler = (case block of Inl e \<Rightarrow> handler e | Inr v \<Rightarrow> Inr v)"

subsection \<open>Header lists\<close>

text \<open>
  A \<open>Headers\<close> object is a list of name and value pairs in which a name may occur more
  than once; names are compared without regard to ASCII case. \<open>get\<close> joins the values of
  a name.
\<close>

definition lower_char :: "char \<Rightarrow> char" where
  "lower_char c =
     (case map_of (zip ''ABCDEFGHIJKLMNOPQRSTUVWXYZ'' ''abcdefghijklmnopqrstuvwxyz'') c of
        None \<Rightarrow> c
      | Some l \<Rightarrow> l)"

definition same_name :: "string \<Rightarrow> string \<Rightarrow> bool" where
  "same_name a b = (map lower_char a = map lower_char b)"

definition named :: "string \<Rightarrow> string \<times> string \<Rightarrow> bool" where
  "named n h = same_name (fst h) n"

definition Headers_new :: "headers \<Rightarrow> headers" where
  "Headers_new init = init"

text \<open>
  Setting a name in a header list writes the value into the first entry of that name and
  drops the other entries of that name, or appends an entry when there is none.
\<close>

fun header_list_set :: "string \<Rightarrow> string \<Rightarrow> headers \<Rightarrow> headers" where
  "header_list_set n v [] = [(n, v)]"
| "header_list_set n v (h # hs) =
     (if named n h then (fst h, v) # filter (\<lambda>h'. \<not> named n h') hs
      else h # header_list_set n v hs)"

text \<open>
  \<open>headers.set(name, value)\<close> first strips the HTTP whitespace (tab, line feed, carriage
  return, space) at both ends of the value. It throws a TypeError unless the name is a
  token and the stripped value is a header value: one with no tab or space at either
  end and no NUL, line feed or carriage return anywhere. Only then is the list changed.
\<close>

definition ByteString :: "DOMString \<Rightarrow> error + string" where
  "ByteString units =
     (if list_all (\<lambda>u. u < 256) units then Inr (map char_of units) else Inl TypeError)"

definition is_http_whitespace :: "char \<Rightarrow> bool" where
  "is_http_whitespace c = (c = CHR 0x09 \<or> c = CHR 0x0A \<or> c = CHR 0x0D \<or> c = CHR 0x20)"

definition normalize_value :: "string \<Rightarrow> string" where
  "normalize_value v = rev (dropWhile is_http_whitespace (rev (dropWhile is_http_whitespace v)))"

definition is_tchar :: "char \<Rightarrow> bool" where
  "is_tchar c =
     (c \<in> set (''!#$%&*+-.^_|~0123456789''
              @ ''abcdefghijklmnopqrstuvwxyzABCDEFGHIJKLMNOPQRSTUVWXYZ''
              @ [CHR 0x27, CHR 0x60]))"

definition is_header_name :: "string \<Rightarrow> bool" where
  "is_header_name n = (n \<noteq> [] \<and> list_all is_tchar n)"

definition is_tab_or_space :: "char \<Rightarrow> bool" where
  "is_tab_or_space c = (c = CHR 0x09 \<or> c = CHR 0x20)"

definition is_header_value :: "string \<Rightarrow> bool" where
  "is_header_value v =
     ((v = [] \<or> (\<not> is_tab_or_space (hd v) \<and> \<not> is_tab_or_space (last v)))
      \<and> CHR 0x00 \<notin> set v \<and> CHR 0x0A \<notin> set v \<and> CHR 0x0D \<notin> set v)"

definition Headers_set :: "string \<Rightarrow> string \<Rightarrow> headers \<Rightarrow> error + headers" where
  "Headers_set n v hs =
     (let v = normalize_value v in
      if is_header_name n \<and> is_header_value v then Inr (header_list_set n v hs)
      else Inl TypeError)"

fun join :: "string \<Rightarrow> string list \<Rightarrow> string" where
  "join sep [] = []"
| "join sep [x] = x"
| "join sep (x # y # ys) = x @ sep @ join sep (y # ys)"

definition Headers_get :: "string \<Rightarrow> headers \<Rightarrow> string option" where
  "Headers_get n hs =
     (case filter (named n) hs of
        [] \<Rightarrow> None
      | h # rest \<Rightarrow> Some (join '', '' (map snd (h # rest))))"

definition Headers_has :: "string \<Rightarrow> headers \<Rightarrow> bool" where
  "Headers_has n hs = (filter (named n) hs \<noteq> [])"

subsection \<open>Requests and responses\<close>

text \<open>
  \<open>new Response(body, init)\<close>: a body given as a string brings the content type of plain
  text unless the headers of \<open>init\<close> name one.
\<close>

definition Response_new :: "body_init option \<Rightarrow> nat \<Rightarrow> headers \<Rightarrow> response" where
  "Response_new b st hs =
     \<lparr> status = st,
       res_headers =
         (case b of
            Some (Text t) \<Rightarrow>
              if Headers_has ''content-type'' hs then hs
              else hs @ [(''content-type'', ''text/plain;charset=UTF-8'')]
          | _ \<Rightarrow> hs),
       res_body = b \<rparr>"

definition Request_new :: "URL \<Rightarrow> string \<Rightarrow> headers \<Rightarrow> request_body option \<Rightarrow> request" where
  "Request_new u m hs b = \<lparr> req_url = u, req_method = m, req_headers = hs, req_body = b \<rparr>"

text \<open>\<open>request.json()\<close>: a request without a body reads as the empty text, which is not JSON.\<close>

definition Request_json :: "request \<Rightarrow> error + json" where
  "Request_json r = (case req_body r of None \<Rightarrow> Inl SyntaxError | Some b \<Rightarrow> body_json b)"

text \<open>
  The getters \<open>search\<close> and \<open>hash\<close> are empty for an absent and for an empty component.
  The serialisation \<open>href\<close> keeps the \<open>?\<close> of an empty query and the \<open>#\<close> of an empty
  fragment.
\<close>

definition search :: "URL \<Rightarrow> string" where
  "search u = (case query u of None \<Rightarrow> [] | Some q \<Rightarrow> if q = [] then [] else CHR ''?'' # q)"

definition hash :: "URL \<Rightarrow> string" where
  "hash u = (case fragment u of None \<Rightarrow> [] | Some f \<Rightarrow> if f = [] then [] else CHR ''#'' # f)"

definition href :: "URL \<Rightarrow> string" where
  "href u =
     protocol u @ ''//'' @ hostname u @ (if port u = [] then [] else '':'' @ port u)
       @ pathname u
       @ (case query u of None \<Rightarrow> [] | Some q \<Rightarrow> CHR ''?'' # q)
       @ (case fragment u of None \<Rightarrow> [] | Some f \<Rightarrow> CHR ''#'' # f)"

subsection \<open>JSON values as the script sees them\<close>

text \<open>
  Reading a member \<open>v.name\<close>: on \<open>null\<close> it throws a TypeError; on an object it is the
  member, or \<open>undefined\<close> (here \<open>None\<close>) when there is none; a boolean, a number, a string
  or an array has no member of the two names the worker reads, \<open>messages\<close> and \<open>role\<close>.
\<close>

fun get_member :: "json \<Rightarrow> string \<Rightarrow> error + json option" where
  "get_member JNull name = Inl TypeError"
| "get_member (JObject members) name = Inr (map_of members name)"
| "get_member v name = Inr None"

text \<open>
  \<open>xs.some(callback)\<close> on an array stops at the first element the callback accepts; an
  exception of the callback leaves the loop.
\<close>

fun Array_some :: "(json \<Rightarrow> error + bool) \<Rightarrow> json list \<Rightarrow> error + bool" where
  "Array_some callback [] = Inr False"
| "Array_some callback (x # xs) =
     (case callback x of
        Inl e \<Rightarrow> Inl e
      | Inr True \<Rightarrow> Inr True
      | Inr False \<Rightarrow> Array_some callback xs)"

text \<open>
  Only an array has the methods \<open>some\<close> and \<open>unshift\<close>: on any other JSON value the call
  throws a TypeError, since the member is \<open>undefined\<close> or, in an object, not a function.
\<close>

fun call_some :: "json \<Rightarrow> (json \<Rightarrow> error + bool) \<Rightarrow> error + bool" where
  "call_some (JArray xs) callback = Array_some callback xs"
| "call_some v callback = Inl TypeError"

fun call_unshift :: "json \<Rightarrow> json \<Rightarrow> error + json" where
  "call_unshift (JArray xs) x = Inr (JArray (x # xs))"
| "call_unshift v x = Inl TypeError"

subsection \<open>\<open>JSON.stringify\<close>\<close>

fun digits :: "nat \<Rightarrow> string" where
  "digits n =
     (if n < 10 then [''0123456789'' ! n]
      else digits (n div 10) @ [''0123456789'' ! (n mod 10)])"

definition hex_digit :: "nat \<Rightarrow> char" where
  "hex_digit n = ''0123456789abcdef'' ! (n mod 16)"

definition escape_char :: "char \<Rightarrow> string" where
  "escape_char c =
     (let n = (of_char c :: nat) in
      if n = 0x22 then [CHR 0x5C, CHR 0x22]
      else if n = 0x5C then [CHR 0x5C, CHR 0x5C]
      else if n = 8 then [CHR 0x5C, CHR ''b'']
      else if n = 9 then [CHR 0x5C, CHR ''t'']
      else if n = 10 then [CHR 0x5C, CHR ''n'']
      else if n = 12 then [CHR 0x5C, CHR ''f'']
      else if n = 13 then [CHR 0x5C, CHR ''r'']
      else if n < 0x20 then
        [CHR 0x5C, CHR ''u'', CHR ''0'', CHR ''0'', hex_digit (n div 16), hex_digit n]
      else [c])"

definition quote :: "string \<Rightarrow> string" where
  "quote s = [CHR 0x22] @ concat (map escape_char s) @ [CHR 0x22]"

fun JSON_stringify :: "json \<Rightarrow> string" where
  "JSON_stringify JNull = ''null''"
| "JSON_stringify (JBool b) = (if b then ''true'' else ''false'')"
| "JSON_stringify (JNumber i) = (if i < 0 then ''-'' @ digits (nat (- i)) else digits (nat i))"
| "JSON_stringify (JString s) = quote s"
| "JSON_stringify (JArray xs) = ''['' @ join '','' (map JSON_stringify xs) @ '']''"
| "JSON_stringify (JObject members) =
     ''{'' @ join '','' (map (\<lambda>(k, v). quote k @ '':'' @ JSON_stringify v) members) @ ''}''"

section \<open>The worker\<close>

definition MODEL_ID :: string where
  "MODEL_ID = ''@cf/meta/llama-3.1-8b-instruct-fp8''"

definition SYSTEM_PROMPT :: string where
  "SYSTEM_PROMPT =
     ''You are a helpful, friendly assistant. Provide concise and accurate responses.''"

definition GROQ_API_HOST :: string where
  "GROQ_API_HOST = ''api.groq.com''"

subsection \<open>\<open>handleChatRequest\<close>\<close>

text \<open>The object literal that \<open>unshift\<close> receives.\<close>

definition system_message :: json where
  "system_message = JObject [(''role'', JString ''system''), (''content'', JString SYSTEM_PROMPT)]"

text \<open>The callback \<open>(msg) => msg.role === "system"\<close>.\<close>

definition role_is_system :: "json \<Rightarrow> error + bool" where
  "role_is_system msg =
     and_then (get_member msg ''role'') (\<lambda>role. Inr (role = Some (JString ''system'')))"

text \<open>The response of the \<open>try\<close> block around a stream, and the one of the \<open>catch\<close> block.\<close>

definition chat_stream_response :: "stream \<Rightarrow> response" where
  "chat_stream_response s =
     Response_new (Some (Stream s)) 200
       [(''content-type'', ''text/event-stream; charset=utf-8''),
        (''cache-control'', ''no-cache''),
        (''connection'', ''keep-alive'')]"

definition chat_error_response :: response where
  "chat_error_response =
     Response_new
       (Some (Text (JSON_stringify (JObject [(''error'', JString ''Failed to process request'')]))))
       500
       [(''content-type'', ''application/json'')]"

text \<open>
  The destructuring \<open>const { messages = [] } = ...\<close> reads the member \<open>messages\<close> and
  takes the default only when the member is \<open>undefined\<close>; a member that is \<open>null\<close> stays
  \<open>null\<close>.
\<close>

definition destructure_messages :: "json \<Rightarrow> error + json" where
  "destructure_messages parsed =
     and_then (get_member parsed ''messages'')
       (\<lambda>member. Inr (case member of None \<Rightarrow> JArray [] | Some v \<Rightarrow> v))"

definition handleChatRequest :: "request \<Rightarrow> env \<Rightarrow> error + response" where
  "handleChatRequest request env =
     try_catch
       (and_then (Request_json request) (\<lambda>parsed.
        and_then (destructure_messages parsed) (\<lambda>msgs.
        and_then (call_some msgs role_is_system) (\<lambda>found.
        and_then (if \<not> found then call_unshift msgs system_message else Inr msgs) (\<lambda>msgs.
        and_then
          (AI_run env MODEL_ID \<lparr> messages = msgs, max_tokens = 1024, stream = True \<rparr> [])
          (\<lambda>s. Inr (chat_stream_response s)))))))
       (\<lambda>error. Inr chat_error_response)"

subsection \<open>\<open>handleGroqProxy\<close>\<close>

text \<open>
  The URL computed first in the \<open>try\<close> block. \<open>new URL(request.url)\<close> is the URL of the
  request, an http or https URL with a host, on which the three setters assign the
  component; \<open>oldUrl\<close> is never read.
\<close>

definition newUrl :: "request \<Rightarrow> URL" where
  "newUrl request =
     (let u = req_url request;
          u = u\<lparr> hostname := GROQ_API_HOST \<rparr>;
          u = u\<lparr> protocol := ''https:'' \<rparr>;
          u = u\<lparr> port := [] \<rparr>
      in u)"

text \<open>
  The request built next. Either call of \<open>headers.set\<close> can throw, and then the \<open>catch\<close>
  block answers without a request being sent. The test \<open>if (env.GROQ_API_KEY)\<close> holds
  for a string that is not empty, and the template literal puts \<open>Bearer\<close> and a space
  before the key. The constructor takes the inbound method with the inbound body, which
  an inbound request has only with a method that allows one.
\<close>

definition modifiedRequest :: "request \<Rightarrow> env \<Rightarrow> error + request" where
  "modifiedRequest request env =
     and_then (Headers_set ''host'' GROQ_API_HOST (Headers_new (req_headers request))) (\<lambda>hs.
     and_then
       (case GROQ_API_KEY env of
          None \<Rightarrow> Inr hs
        | Some key \<Rightarrow>
            if key \<noteq> [] then
              and_then (ByteString (map of_char ''Bearer '' @ key))
                (\<lambda>v. Headers_set ''authorization'' v hs)
            else Inr hs) (\<lambda>hs.
     Inr (Request_new (newUrl request) (req_method request) hs (req_body request))))"

definition proxy_error_response :: response where
  "proxy_error_response =
     Response_new
       (Some (Text (JSON_stringify (JObject [(''error'', JString ''Failed to proxy request'')]))))
       500
       [(''content-type'', ''application/json'')]"

definition handleGroqProxy ::
  "(request \<Rightarrow> error + response) \<Rightarrow> request \<Rightarrow> env \<Rightarrow> error + response" where
  "handleGroqProxy global_fetch request env =
     try_catch
       (and_then (modifiedRequest request env) global_fetch)
       (\<lambda>error. Inr proxy_error_response)"

subsection \<open>The router \<open>fetch\<close>\<close>

text \<open>
  The method \<open>fetch\<close> of the default export, named \<open>worker_fetch\<close> here because the
  source also calls the ambient \<open>fetch\<close> of the runtime: that one is the first argument,
  handed on to the proxy handler. An exception of the asset binding is not caught here.
\<close>

definition worker_fetch ::
  "(request \<Rightarrow> error + response) \<Rightarrow> request \<Rightarrow> env \<Rightarrow> error + response" where
  "worker_fetch global_fetch request env =
     (let url = req_url request in
      if pathname url = ''/'' \<or> \<not> startsWith (pathname url) ''/api/'' then
        ASSETS_fetch env request
      else if pathname url = ''/api/chat'' then
        (if req_method request = ''POST'' then handleChatRequest request env
         else Inr (Response_new (Some (Text ''Method not allowed'')) 405 []))
      else if startsWith (pathname url) ''/openai/v1/'' then
        handleGroqProxy global_fetch request env
      else Inr (Response_new (Some (Text ''Not found'')) 404 []))"

section \<open>Sample requests and capabilities\<close>

text \<open>
  Concrete values on which the theorems below are instantiated: a worker reached at
  \<open>http://chat.example.com:8787\<close>, an asset binding that serves one page, an inference
  binding whose stream repeats its model and its messages, an environment whose key is
  given by its bytes, one whose inference binding refuses a single message sequence, a
  request for \<open>https://chat.example.com/openai/v1/models?\<close> with an empty query, a
  network fetch that answers with the URL and the headers it was called with, and one
  that cannot connect.
\<close>

definition example_url :: "string \<Rightarrow> URL" where
  "example_url path =
     \<lparr> protocol = ''http:'', hostname = ''chat.example.com'', port = ''8787'',
       pathname = path, query = Some ''x=1'', fragment = None \<rparr>"

definition example_request ::
  "string \<Rightarrow> string \<Rightarrow> headers \<Rightarrow> request_body option \<Rightarrow> request" where
  "example_request m path hs b =
     \<lparr> req_url = example_url path, req_method = m, req_headers = hs, req_body = b \<rparr>"

definition json_body :: "json \<Rightarrow> request_body" where
  "json_body v = \<lparr> body_stream = [JSON_stringify v], body_json = Inr v \<rparr>"

definition malformed_body :: request_body where
  "malformed_body = \<lparr> body_stream = [''{ messages: ''], body_json = Inl SyntaxError \<rparr>"

definition chat_request :: "request_body \<Rightarrow> request" where
  "chat_request b =
     example_request ''POST'' ''/api/chat'' [(''content-type'', ''application/json'')] (Some b)"

definition user_message :: json where
  "user_message = JObject [(''role'', JString ''user''), (''content'', JString ''Hello'')]"

definition brief_message :: json where
  "brief_message = JObject [(''role'', JString ''system''), (''content'', JString ''Be brief.'')]"

definition openai_request :: request where
  "openai_request =
     example_request ''POST'' ''/openai/v1/chat/completions''
       [(''Accept'', ''text/event-stream''), (''Authorization'', ''Bearer caller''),
        (''accept'', ''application/json'')]
       (Some (json_body (JObject [(''model'', JString ''llama-3.1-8b-instant'')])))"

definition asset_page :: response where
  "asset_page =
     Response_new (Some (Text ''<!doctype html>'')) 200 [(''content-type'', ''text/html'')]"

definition example_env :: "string option \<Rightarrow> env" where
  "example_env key =
     \<lparr> AI_run = (\<lambda>model inputs options. Inr [model, JSON_stringify (messages inputs)]),
       ASSETS_fetch = (\<lambda>r. Inr asset_page),
       GROQ_API_KEY = map_option (map of_char) key \<rparr>"

definition offline_env :: env where
  "offline_env =
     \<lparr> AI_run = (\<lambda>model inputs options. Inl (ServiceError ''inference unavailable'')),
       ASSETS_fetch = (\<lambda>r. Inr asset_page),
       GROQ_API_KEY = None \<rparr>"

definition picky_env :: env where
  "picky_env =
     \<lparr> AI_run = (\<lambda>model inputs options.
         if messages inputs = JArray [system_message, user_message]
         then Inl (ServiceError ''overloaded'') else Inr [''ok'']),
       ASSETS_fetch = (\<lambda>r. Inr asset_page),
       GROQ_API_KEY = None \<rparr>"

definition models_request :: request where
  "models_request =
     \<lparr> req_url =
         \<lparr> protocol = ''https:'', hostname = ''chat.example.com'', port = [],
           pathname = ''/openai/v1/models'', query = Some [], fragment = None \<rparr>,
       req_method = ''GET'', req_headers = [], req_body = None \<rparr>"

definition echo_fetch :: "request \<Rightarrow> error + response" where
  "echo_fetch r = Inr (Response_new (Some (Text (href (req_url r)))) 200 (req_headers r))"

definition failing_fetch :: "request \<Rightarrow> error + response" where
  "failing_fetch r = Inl (ServiceError ''connection refused'')"

text \<open>
  What the chat handler returns once it calls the inference binding with the message
  sequence \<open>msgs\<close>: the stream of the binding, or the response of the \<open>catch\<close> block.
\<close>

abbreviation forwarded :: "env \<Rightarrow> json \<Rightarrow> error + response" where
  "forwarded env msgs \<equiv>
     (case AI_run env MODEL_ID \<lparr> messages = msgs, max_tokens = 1024, stream = True \<rparr> [] of
        Inl e \<Rightarrow> Inr chat_error_response
      | Inr s \<Rightarrow> Inr (chat_stream_response s))"

section \<open>Facts about the runtime operations\<close>

lemma and_then_simps:
  "and_then (Inl e) f = Inl e"
  "and_then (Inr v) f = f v"
  by (simp_all add: and_then_def)

lemma try_catch_simps:
  "try_catch (Inl e) h = h e"
  "try_catch (Inr v) h = Inr v"
  by (simp_all add: try_catch_def)

lemma api_path_not_openai:
  assumes "startsWith p ''/api/''"
  shows "\<not> startsWith p ''/openai/v1/''" and "p \<noteq> ''/''"
  using assms by (auto simp: startsWith_def prefix_def)

lemma error_body_texts:
  \<open>JSON_stringify (JObject [(''error'', JString ''Failed to process request'')])
     = ''{"error":"Failed to process request"}''\<close>
  \<open>JSON_stringify (JObject [(''error'', JString ''Failed to proxy request'')])
     = ''{"error":"Failed to proxy request"}''\<close>
  by (simp_all add: quote_def escape_char_def)

lemma chat_error_response_fields:
  \<open>status chat_error_response = 500\<close>
  \<open>res_body chat_error_response = Some (Text ''{"error":"Failed to process request"}'')\<close>
  \<open>res_headers chat_error_response = [(''content-type'', ''application/json'')]\<close>
  by (simp_all add: chat_error_response_def Response_new_def error_body_texts Headers_has_def
      named_def same_name_def del: JSON_stringify.simps)

lemma proxy_error_response_fields:
  \<open>status proxy_error_response = 500\<close>
  \<open>res_body proxy_error_response = Some (Text ''{"error":"Failed to proxy request"}'')\<close>
  \<open>res_headers proxy_error_response = [(''content-type'', ''application/json'')]\<close>
  by (simp_all add: proxy_error_response_def Response_new_def error_body_texts Headers_has_def
      named_def same_name_def del: JSON_stringify.simps)

subsection \<open>Header lists\<close>

lemma same_name_refl: "same_name n n"
  by (simp add: same_name_def)




text \<open>After \<open>set\<close> the name has one entry, with the value set.\<close>

lemma header_list_set_values_same: "map snd (filter (named k) (header_list_set k v hs)) = [v]"
proof (induction hs)
  case Nil
  show ?case by (simp add: named_def same_name_refl)
next
  case (Cons h hs)
  show ?case
  proof (cases "named k h")
    case True
    then have "named k (fst h, v)" by (simp add: named_def)
    moreover have "filter (named k) (filter (\<lambda>h'. \<not> named k h') hs) = []"
      by (induction hs) auto
    ultimately show ?thesis using True by simp
  next
    case False
    then show ?thesis using Cons.IH by simp
  qed
qed


lemma Headers_get_set_same: "Headers_get k (header_list_set k v hs) = Some v"
proof -
  have "map snd (filter (named k) (header_list_set k v hs)) = [v]"
    by (rule header_list_set_values_same)
  then show ?thesis
    by (cases "filter (named k) (header_list_set k v hs)") (auto simp: Headers_get_def)
qed


subsection \<open>The scan for a system message\<close>

lemma role_is_system_not_null:
  "m \<noteq> JNull \<Longrightarrow>
   role_is_system m = Inr (get_member m ''role'' = Inr (Some (JString ''system'')))"
  by (cases m) (simp_all add: role_is_system_def and_then_simps)

lemma Array_some_no_null:
  "JNull \<notin> set ms \<Longrightarrow>
   Array_some role_is_system ms
     = Inr (\<exists>m\<in>set ms. get_member m ''role'' = Inr (Some (JString ''system'')))"
  by (induction ms) (auto simp: role_is_system_not_null split: bool.splits)

lemma Array_some_found:
  "Array_some role_is_system ms = Inr True \<Longrightarrow>
   \<exists>m\<in>set ms. get_member m ''role'' = Inr (Some (JString ''system''))"
proof (induction ms)
  case Nil
  then show ?case by simp
next
  case (Cons m ms)
  show ?case
  proof (cases "role_is_system m")
    case (Inl e)
    with Cons.prems show ?thesis by simp
  next
    case (Inr b)
    show ?thesis
    proof (cases b)
      case True
      with Inr have "m \<noteq> JNull" by (auto simp: role_is_system_def and_then_simps)
      with Inr True show ?thesis by (simp add: role_is_system_not_null)
    next
      case False
      with Inr Cons show ?thesis by simp
    qed
  qed
qed

lemma Array_some_null_first:
  "JNull \<notin> set pre \<Longrightarrow>
   \<not> (\<exists>m\<in>set pre. get_member m ''role'' = Inr (Some (JString ''system''))) \<Longrightarrow>
   Array_some role_is_system (pre @ JNull # post) = Inl TypeError"
proof (induction pre)
  case Nil
  show ?case by (simp add: role_is_system_def and_then_simps)
next
  case (Cons m pre)
  then have "m \<noteq> JNull" and "get_member m ''role'' \<noteq> Inr (Some (JString ''system''))"
    by auto
  then have "role_is_system m = Inr False"
    by (simp add: role_is_system_not_null)
  with Cons show ?case by simp
qed

lemma call_some_array:
  "call_some v cb = Inr found \<Longrightarrow> \<exists>xs. v = JArray xs \<and> Array_some cb xs = Inr found"
  by (cases v) simp_all

lemma system_message_role: "get_member system_message ''role'' = Inr (Some (JString ''system''))"
  by (simp add: system_message_def)

lemma destructure_messages_object:
  "destructure_messages (JObject members)
     = Inr (case map_of members ''messages'' of None \<Rightarrow> JArray [] | Some v \<Rightarrow> v)"
  by (simp add: destructure_messages_def and_then_simps)

subsection \<open>The paths through the chat handler\<close>

lemma handleChatRequest_parse_error:
  "Request_json request = Inl e \<Longrightarrow> handleChatRequest request env = Inr chat_error_response"
  by (simp add: handleChatRequest_def and_then_simps try_catch_simps)

lemma handleChatRequest_destructure_error:
  "Request_json request = Inr parsed \<Longrightarrow> destructure_messages parsed = Inl e \<Longrightarrow>
   handleChatRequest request env = Inr chat_error_response"
  by (simp add: handleChatRequest_def and_then_simps try_catch_simps)

lemma handleChatRequest_some_error:
  "Request_json request = Inr parsed \<Longrightarrow> destructure_messages parsed = Inr msgs \<Longrightarrow>
   call_some msgs role_is_system = Inl e \<Longrightarrow>
   handleChatRequest request env = Inr chat_error_response"
  by (simp add: handleChatRequest_def and_then_simps try_catch_simps)

lemma handleChatRequest_array:
  assumes "Request_json request = Inr parsed"
    and "destructure_messages parsed = Inr (JArray xs)"
    and "Array_some role_is_system xs = Inr found"
  shows "handleChatRequest request env
           = forwarded env (JArray (if found then xs else system_message # xs))"
  using assms
  by (simp add: handleChatRequest_def and_then_simps try_catch_simps
      and_then_def [of "AI_run _ _ _ _"] split: sum.splits)

lemma handleChatRequest_dichotomy:
  "(\<forall>env. handleChatRequest request env = Inr chat_error_response) \<or>
   (\<exists>ms. (\<exists>m\<in>set ms. get_member m ''role'' = Inr (Some (JString ''system''))) \<and>
         (\<forall>env. handleChatRequest request env = forwarded env (JArray ms)))"
proof (cases "Request_json request")
  case (Inl e)
  then show ?thesis by (simp add: handleChatRequest_parse_error)
next
  case parsed: (Inr parsed)
  show ?thesis
  proof (cases "destructure_messages parsed")
    case (Inl e)
    with parsed show ?thesis by (simp add: handleChatRequest_destructure_error)
  next
    case msgs: (Inr msgs)
    show ?thesis
    proof (cases "call_some msgs role_is_system")
      case (Inl e)
      with parsed msgs show ?thesis by (simp add: handleChatRequest_some_error)
    next
      case (Inr found)
      then obtain xs where xs: "msgs = JArray xs" "Array_some role_is_system xs = Inr found"
        using call_some_array by blast
      let ?out = "if found then xs else system_message # xs"
      have "\<exists>m\<in>set ?out. get_member m ''role'' = Inr (Some (JString ''system''))"
        using xs(2) Array_some_found by (cases found) (auto simp: system_message_role)
      moreover have "\<forall>env. handleChatRequest request env = forwarded env (JArray ?out)"
        using handleChatRequest_array [OF parsed msgs [unfolded xs(1)] xs(2)] by blast
      ultimately show ?thesis by blast
    qed
  qed
qed

lemma handleChatRequest_outcomes:
  "handleChatRequest request env = Inr chat_error_response \<or>
   (\<exists>msgs s.
      AI_run env MODEL_ID \<lparr> messages = msgs, max_tokens = 1024, stream = True \<rparr> [] = Inr s
      \<and> handleChatRequest request env = Inr (chat_stream_response s))"
proof -
  from handleChatRequest_dichotomy [of request]
  consider "handleChatRequest request env = Inr chat_error_response"
    | ms where "handleChatRequest request env = forwarded env (JArray ms)"
    by blast
  then show ?thesis
  proof cases
    case 1
    then show ?thesis by simp
  next
    case (2 ms)
    then show ?thesis
      by (cases "AI_run env MODEL_ID \<lparr> messages = JArray ms, max_tokens = 1024, stream = True \<rparr> []")
        auto
  qed
qed

subsection \<open>Setting a header\<close>


lemma ByteString_error: "ByteString units = Inl e \<Longrightarrow> e = TypeError"
  by (simp add: ByteString_def split: if_splits)

lemma host_is_set:
  "Headers_set ''host'' GROQ_API_HOST hs = Inr (header_list_set ''host'' ''api.groq.com'' hs)"
proof -
  have "is_header_name ''host''"
    by code_simp
  moreover have "normalize_value ''api.groq.com'' = ''api.groq.com''"
    by code_simp
  moreover have "is_header_value ''api.groq.com''"
    by code_simp
  ultimately show ?thesis
    by (simp add: Headers_set_def GROQ_API_HOST_def)
qed

lemma authorization_is_set:
  "Headers_set ''authorization'' v hs
     = (if is_header_value (normalize_value v)
        then Inr (header_list_set ''authorization'' (normalize_value v) hs)
        else Inl TypeError)"
proof -
  have "is_header_name ''authorization''"
    by code_simp
  then show ?thesis
    by (simp add: Headers_set_def)
qed



subsection \<open>The request the proxy sends\<close>

lemma newUrl_eq:
  "newUrl request
     = (req_url request)\<lparr> hostname := ''api.groq.com'', protocol := ''https:'', port := [] \<rparr>"
  by (simp add: newUrl_def GROQ_API_HOST_def Let_def)

lemma modifiedRequest_unkeyed:
  assumes "GROQ_API_KEY env = None \<or> GROQ_API_KEY env = Some []"
  shows "modifiedRequest request env
           = Inr (Request_new (newUrl request) (req_method request)
                   (header_list_set ''host'' ''api.groq.com'' (req_headers request))
                   (req_body request))"
  using assms
  by (auto simp: modifiedRequest_def host_is_set Headers_new_def and_then_simps)

lemma modifiedRequest_keyed:
  assumes "GROQ_API_KEY env = Some key" and "key \<noteq> []"
  shows "modifiedRequest request env
           = (case ByteString (map of_char ''Bearer '' @ key) of
                Inl e \<Rightarrow> Inl TypeError
              | Inr v \<Rightarrow>
                  if is_header_value (normalize_value v) then
                    Inr (Request_new (newUrl request) (req_method request)
                          (header_list_set ''authorization'' (normalize_value v)
                            (header_list_set ''host'' ''api.groq.com'' (req_headers request)))
                          (req_body request))
                  else Inl TypeError)"
proof (cases "ByteString (map of_char ''Bearer '' @ key)")
  case (Inl e)
  then have "e = TypeError"
    by (rule ByteString_error)
  with Inl assms show ?thesis
    by (simp add: modifiedRequest_def host_is_set Headers_new_def and_then_simps)
next
  case (Inr v)
  with assms show ?thesis
    by (simp add: modifiedRequest_def host_is_set Headers_new_def and_then_simps
        authorization_is_set)
qed

lemma modifiedRequest_error: "modifiedRequest request env = Inl e \<Longrightarrow> e = TypeError"
proof (cases "GROQ_API_KEY env")
  case None
  then show "modifiedRequest request env = Inl e \<Longrightarrow> e = TypeError"
    by (simp add: modifiedRequest_unkeyed)
next
  case (Some key)
  then show "modifiedRequest request env = Inl e \<Longrightarrow> e = TypeError"
    by (cases "key = []")
      (auto simp: modifiedRequest_unkeyed modifiedRequest_keyed split: sum.splits if_splits)
qed

text \<open>What a request that was built looks like.\<close>

lemma modifiedRequest_sent:
  assumes "modifiedRequest request env = Inr out"
  shows "req_url out = newUrl request"
    and "req_method out = req_method request"
    and "req_body out = req_body request"
    and "((GROQ_API_KEY env = None \<or> GROQ_API_KEY env = Some [])
          \<and> req_headers out = header_list_set ''host'' ''api.groq.com'' (req_headers request))
       \<or> (\<exists>key v. GROQ_API_KEY env = Some key \<and> key \<noteq> []
            \<and> ByteString (map of_char ''Bearer '' @ key) = Inr v
            \<and> is_header_value (normalize_value v)
            \<and> req_headers out
                = header_list_set ''authorization'' (normalize_value v)
                    (header_list_set ''host'' ''api.groq.com'' (req_headers request)))"
proof -
  consider (unkeyed) "GROQ_API_KEY env = None \<or> GROQ_API_KEY env = Some []"
    | (keyed) key where "GROQ_API_KEY env = Some key" and "key \<noteq> []"
    by (cases "GROQ_API_KEY env") auto
  then have "req_url out = newUrl request \<and> req_method out = req_method request
      \<and> req_body out = req_body request
      \<and> (((GROQ_API_KEY env = None \<or> GROQ_API_KEY env = Some [])
            \<and> req_headers out = header_list_set ''host'' ''api.groq.com'' (req_headers request))
         \<or> (\<exists>key v. GROQ_API_KEY env = Some key \<and> key \<noteq> []
              \<and> ByteString (map of_char ''Bearer '' @ key) = Inr v
              \<and> is_header_value (normalize_value v)
              \<and> req_headers out
                  = header_list_set ''authorization'' (normalize_value v)
                      (header_list_set ''host'' ''api.groq.com'' (req_headers request))))"
  proof cases
    case unkeyed
    from assms [unfolded modifiedRequest_unkeyed [OF unkeyed]] unkeyed
    show ?thesis by (auto simp: Request_new_def)
  next
    case (keyed key)
    from assms [unfolded modifiedRequest_keyed [OF keyed]] keyed
    show ?thesis
      by (cases "ByteString (map of_char ''Bearer '' @ key)")
        (auto simp: Request_new_def split: if_splits)
  qed
  then show "req_url out = newUrl request"
    and "req_method out = req_method request"
    and "req_body out = req_body request"
    and "((GROQ_API_KEY env = None \<or> GROQ_API_KEY env = Some [])
          \<and> req_headers out = header_list_set ''host'' ''api.groq.com'' (req_headers request))
       \<or> (\<exists>key v. GROQ_API_KEY env = Some key \<and> key \<noteq> []
            \<and> ByteString (map of_char ''Bearer '' @ key) = Inr v
            \<and> is_header_value (normalize_value v)
            \<and> req_headers out
                = header_list_set ''authorization'' (normalize_value v)
                    (header_list_set ''host'' ''api.groq.com'' (req_headers request)))"
    by blast+
qed

lemma handleGroqProxy_forwards:
  "handleGroqProxy global_fetch request env
     = (case modifiedRequest request env of
          Inl e \<Rightarrow> Inr proxy_error_response
        | Inr out \<Rightarrow>
            (case global_fetch out of
               Inl e \<Rightarrow> Inr proxy_error_response
             | Inr r \<Rightarrow> Inr r))"
  by (simp add: handleGroqProxy_def try_catch_def and_then_def split: sum.splits)





text \<open>
  A path under \<open>/openai/v1/\<close> is not under \<open>/api/\<close>, so the first test of the router
  sends it to the asset binding; the router never calls the network fetch.
\<close>

lemma openai_path_not_api: "startsWith p ''/openai/v1/'' \<Longrightarrow> \<not> startsWith p ''/api/''"
  by (auto simp: startsWith_def prefix_def)

lemma router_never_proxies:
  "worker_fetch global_fetch request env = worker_fetch other_fetch request env"
  by (auto simp: worker_fetch_def Let_def dest: api_path_not_openai)

subsection \<open>The sample values, evaluated\<close>

lemma example_request_fields:
  "pathname (req_url (example_request m p hs b)) = p"
  "req_method (example_request m p hs b) = m"
  "req_headers (example_request m p hs b) = hs"
  "req_body (example_request m p hs b) = b"
  by (simp_all add: example_request_def example_url_def)

lemma chat_request_json: "Request_json (chat_request b) = body_json b"
  by (simp add: chat_request_def example_request_def Request_json_def)

lemma openai_request_path: "pathname (req_url openai_request) = ''/openai/v1/chat/completions''"
  by (simp add: openai_request_def example_request_fields)

lemma openai_request_sent:
  "modifiedRequest openai_request (example_env (Some ''gsk_key'')) =
     Inr \<lparr> req_url =
             \<lparr> protocol = ''https:'', hostname = ''api.groq.com'', port = [],
               pathname = ''/openai/v1/chat/completions'', query = Some ''x=1'',
               fragment = None \<rparr>,
           req_method = ''POST'',
           req_headers =
             [(''Accept'', ''text/event-stream''), (''Authorization'', ''Bearer gsk_key''),
              (''accept'', ''application/json''), (''host'', ''api.groq.com'')],
           req_body =
             Some (json_body (JObject [(''model'', JString ''llama-3.1-8b-instant'')])) \<rparr>"
  by code_simp



lemma openai_request_refused:
  "modifiedRequest openai_request (example_env (Some (''gsk'' @ [CHR 0x0A] @ ''key'')))
     = Inl TypeError"
  "modifiedRequest openai_request (example_env None\<lparr> GROQ_API_KEY := Some [0x43A, 0x43B] \<rparr>)
     = Inl TypeError"
  by code_simp+

lemma openai_request_proxied:
  "handleGroqProxy echo_fetch openai_request (example_env (Some ''gsk_key'')) =
     Inr \<lparr> status = 200,
           res_headers =
             [(''Accept'', ''text/event-stream''), (''Authorization'', ''Bearer gsk_key''),
              (''accept'', ''application/json''), (''host'', ''api.groq.com''),
              (''content-type'', ''text/plain;charset=UTF-8'')],
           res_body = Some (Text ''https://api.groq.com/openai/v1/chat/completions?x=1'') \<rparr>"
  unfolding handleGroqProxy_forwards openai_request_sent by code_simp

lemma asset_page_fields:
  "status asset_page = 200"
  "res_body asset_page = Some (Text ''<!doctype html>'')"
  by (simp_all add: asset_page_def Response_new_def)

section \<open>Routing\<close>

text \<open>
  C1. The router has a branch that hands a path under \<open>/openai/v1/\<close> to the proxy
  handler, but the asset test before it takes every path outside \<open>/api/\<close>. On
  \<open>POST /openai/v1/chat/completions\<close> the router answers with the page of the asset
  binding, while the proxy handler on the same request would have answered with what
  the upstream at \<open>api.groq.com\<close> returns.
\<close>

theorem openai_route_served_as_asset:
  "startsWith (pathname (req_url openai_request)) ''/openai/v1/''
   \<and> worker_fetch echo_fetch openai_request (example_env (Some ''gsk_key'')) = Inr asset_page
   \<and> handleGroqProxy echo_fetch openai_request (example_env (Some ''gsk_key'')) =
       Inr \<lparr> status = 200,
             res_headers =
               [(''Accept'', ''text/event-stream''), (''Authorization'', ''Bearer gsk_key''),
                (''accept'', ''application/json''), (''host'', ''api.groq.com''),
                (''content-type'', ''text/plain;charset=UTF-8'')],
             res_body = Some (Text ''https://api.groq.com/openai/v1/chat/completions?x=1'') \<rparr>
   \<and> worker_fetch echo_fetch openai_request (example_env (Some ''gsk_key''))
       \<noteq> handleGroqProxy echo_fetch openai_request (example_env (Some ''gsk_key''))"
proof -
  have path: "startsWith (pathname (req_url openai_request)) ''/openai/v1/''"
    by (simp add: openai_request_path startsWith_def)
  have routed: "worker_fetch echo_fetch openai_request (example_env (Some ''gsk_key''))
      = Inr asset_page"
    by (simp add: worker_fetch_def openai_request_path startsWith_def example_env_def)
  have "worker_fetch echo_fetch openai_request (example_env (Some ''gsk_key''))
      \<noteq> handleGroqProxy echo_fetch openai_request (example_env (Some ''gsk_key''))"
    unfolding routed openai_request_proxied by (simp add: asset_page_def Response_new_def)
  with path routed openai_request_proxied show ?thesis by simp
qed

text \<open>
  C2. A request whose path is \<open>/\<close> or does not start with \<open>/api/\<close> is handed to the
  asset binding as it is, and the router returns what the binding returns, whatever the
  method, the headers and the body of the request are.
\<close>

theorem asset_paths_delegate:
  assumes "pathname (req_url request) = ''/''
    \<or> \<not> startsWith (pathname (req_url request)) ''/api/''"
  shows "worker_fetch global_fetch request env = ASSETS_fetch env request"
  using assms by (simp add: worker_fetch_def)

theorem asset_paths_delegate_witness:
  "\<not> startsWith (pathname (req_url (example_request ''PUT'' ''/docs/guide.html'' []
        (Some malformed_body)))) ''/api/''
   \<and> worker_fetch failing_fetch
        (example_request ''PUT'' ''/docs/guide.html'' [] (Some malformed_body)) offline_env
       = Inr asset_page"
  using asset_paths_delegate [where request =
      "example_request ''PUT'' ''/docs/guide.html'' [] (Some malformed_body)"
      and global_fetch = failing_fetch and env = offline_env]
  by (simp add: example_request_fields startsWith_def offline_env_def)

text \<open>
  The path \<open>/unknown/path\<close> is outside \<open>/api/\<close>, so the asset binding answers it: with
  a binding that serves a page, \<open>GET /unknown/path\<close> gives status 200 and the page, not
  status 404 and the body \<open>Not found\<close>.
\<close>

theorem unknown_path_counterexample:
  "worker_fetch echo_fetch (example_request ''GET'' ''/unknown/path'' [] None)
       (example_env None) = Inr asset_page
   \<and> status asset_page = 200
   \<and> res_body asset_page = Some (Text ''<!doctype html>'')
   \<and> worker_fetch echo_fetch (example_request ''GET'' ''/unknown/path'' [] None)
       (example_env None) \<noteq> Inr (Response_new (Some (Text ''Not found'')) 404 [])"
proof -
  have routed: "worker_fetch echo_fetch (example_request ''GET'' ''/unknown/path'' [] None)
      (example_env None) = Inr asset_page"
    by (simp add: worker_fetch_def example_request_fields startsWith_def example_env_def)
  have "status asset_page \<noteq> status (Response_new (Some (Text ''Not found'')) 404 [])"
    by (simp add: asset_page_fields Response_new_def)
  then have "asset_page \<noteq> Response_new (Some (Text ''Not found'')) 404 []"
    by auto
  with routed show ?thesis by (simp add: asset_page_fields)
qed

text \<open>
  C3, as the code has it. The response with status 404 and the body \<open>Not found\<close> is for
  a path under \<open>/api/\<close> other than \<open>/api/chat\<close>, for any method; every path outside
  \<open>/api/\<close> belongs to the asset binding.
\<close>

theorem unmatched_api_path_not_found:
  assumes "startsWith (pathname (req_url request)) ''/api/''"
    and "pathname (req_url request) \<noteq> ''/api/chat''"
  shows "\<exists>r. worker_fetch global_fetch request env = Inr r
           \<and> status r = 404 \<and> res_body r = Some (Text ''Not found'')"
proof -
  have "worker_fetch global_fetch request env
      = Inr (Response_new (Some (Text ''Not found'')) 404 [])"
    using assms api_path_not_openai [OF assms(1)] by (simp add: worker_fetch_def)
  then show ?thesis by (simp add: Response_new_def)
qed

theorem unmatched_api_path_not_found_witness:
  "startsWith (pathname (req_url (example_request ''GET'' ''/api/unknown'' [] None))) ''/api/''
   \<and> pathname (req_url (example_request ''GET'' ''/api/unknown'' [] None)) \<noteq> ''/api/chat''
   \<and> (\<exists>r. worker_fetch failing_fetch (example_request ''GET'' ''/api/unknown'' [] None)
            offline_env = Inr r
          \<and> status r = 404 \<and> res_body r = Some (Text ''Not found''))"
  using unmatched_api_path_not_found [where request =
      "example_request ''GET'' ''/api/unknown'' [] None"
      and global_fetch = failing_fetch and env = offline_env]
  by (simp add: example_request_fields startsWith_def)

section \<open>The chat handler\<close>

text \<open>
  C4. Let the body parse to an object whose member \<open>messages\<close> is an array \<open>ms\<close> of
  messages (none of them \<open>null\<close>). If no element of \<open>ms\<close> has the role \<open>system\<close>, the
  inference binding is called with the default system message followed by \<open>ms\<close> in its
  order; if some element has the role \<open>system\<close>, wherever it stands, the binding is
  called with \<open>ms\<close> itself.
\<close>

theorem system_prompt_insertion:
  assumes "Request_json request = Inr (JObject members)"
    and "map_of members ''messages'' = Some (JArray ms)"
    and "JNull \<notin> set ms"
  shows "(\<not> (\<exists>m\<in>set ms. get_member m ''role'' = Inr (Some (JString ''system''))) \<longrightarrow>
            handleChatRequest request env =
              forwarded env
                (JArray
                  (JObject
                     [(''role'', JString ''system''),
                      (''content'', JString
                         ''You are a helpful, friendly assistant. Provide concise and accurate responses.'')]
                   # ms)))
       \<and> ((\<exists>m\<in>set ms. get_member m ''role'' = Inr (Some (JString ''system''))) \<longrightarrow>
            handleChatRequest request env = forwarded env (JArray ms))"
proof -
  have "destructure_messages (JObject members) = Inr (JArray ms)"
    using assms(2) by (simp add: destructure_messages_object)
  from handleChatRequest_array [OF assms(1) this Array_some_no_null [OF assms(3)]]
  show ?thesis
    by (simp add: system_message_def SYSTEM_PROMPT_def)
qed

theorem system_prompt_insertion_witness:
  "JNull \<notin> set [user_message]
   \<and> \<not> (\<exists>m\<in>set [user_message]. get_member m ''role'' = Inr (Some (JString ''system'')))
   \<and> handleChatRequest
        (chat_request (json_body (JObject [(''messages'', JArray [user_message])])))
        (example_env None)
       = Inr (chat_stream_response
               [MODEL_ID, JSON_stringify (JArray [system_message, user_message])])
   \<and> JNull \<notin> set [user_message, brief_message]
   \<and> (\<exists>m\<in>set [user_message, brief_message].
          get_member m ''role'' = Inr (Some (JString ''system'')))
   \<and> handleChatRequest
        (chat_request (json_body (JObject [(''messages'', JArray [user_message, brief_message])])))
        (example_env None)
       = Inr (chat_stream_response
               [MODEL_ID, JSON_stringify (JArray [user_message, brief_message])])"
  using
    system_prompt_insertion [where request =
      "chat_request (json_body (JObject [(''messages'', JArray [user_message])]))"
      and members = "[(''messages'', JArray [user_message])]" and ms = "[user_message]"
      and env = "example_env None"]
    system_prompt_insertion [where request =
      "chat_request (json_body (JObject [(''messages'', JArray [user_message, brief_message])]))"
      and members = "[(''messages'', JArray [user_message, brief_message])]"
      and ms = "[user_message, brief_message]" and env = "example_env None"]
  by (simp add: chat_request_json json_body_def user_message_def brief_message_def
      example_env_def system_message_def SYSTEM_PROMPT_def)

text \<open>
  C6. The chat handler always returns a response, never an exception. For every request,
  either it answers with the response of its \<open>catch\<close> block whatever the inference
  binding is, or there is one message sequence with which it calls every binding, and
  then an exception of that call gives the response of the \<open>catch\<close> block and a stream
  gives the stream. The response of the \<open>catch\<close> block has status 500 and the JSON body
  \<open>{"error":"Failed to process request"}\<close>. It is the answer when the body is not JSON,
  when the destructuring throws (the body is \<open>null\<close>), when the scan for a system message
  throws (\<open>messages\<close> is not an array, or a \<open>null\<close> element is reached), and when the
  inference binding throws on the sequence the handler passes.
\<close>

theorem chat_errors_become_500:
  \<open>(\<exists>r. handleChatRequest request env = Inr r)
   \<and> (handleChatRequest request env = Inr chat_error_response
      \<or> (\<exists>msgs s.
            AI_run env MODEL_ID \<lparr> messages = msgs, max_tokens = 1024, stream = True \<rparr> [] = Inr s
            \<and> handleChatRequest request env = Inr (chat_stream_response s)))
   \<and> ((\<forall>any_env. handleChatRequest request any_env = Inr chat_error_response)
      \<or> (\<exists>sent. \<forall>any_env. handleChatRequest request any_env = forwarded any_env sent))
   \<and> (Request_json request = Inl e1 \<longrightarrow>
        handleChatRequest request env = Inr chat_error_response)
   \<and> (Request_json request = Inr parsed \<and> destructure_messages parsed = Inl e2 \<longrightarrow>
        handleChatRequest request env = Inr chat_error_response)
   \<and> (Request_json request = Inr parsed \<and> destructure_messages parsed = Inr msgs
        \<and> call_some msgs role_is_system = Inl e3 \<longrightarrow>
        handleChatRequest request env = Inr chat_error_response)
   \<and> (Request_json request = Inr parsed \<and> destructure_messages parsed = Inr (JArray xs)
        \<and> call_some (JArray xs) role_is_system = Inr found
        \<and> AI_run env MODEL_ID
            \<lparr> messages = JArray (if found then xs else system_message # xs),
              max_tokens = 1024, stream = True \<rparr> [] = Inl e4 \<longrightarrow>
        handleChatRequest request env = Inr chat_error_response)
   \<and> ((\<forall>inputs. \<exists>e. AI_run env MODEL_ID inputs [] = Inl e) \<longrightarrow>
        handleChatRequest request env = Inr chat_error_response)
   \<and> status chat_error_response = 500
   \<and> res_body chat_error_response = Some (Text ''{"error":"Failed to process request"}'')\<close>
proof -
  note outcomes = handleChatRequest_outcomes [of request env]
  have returns: "\<exists>r. handleChatRequest request env = Inr r"
    using outcomes by blast
  have pinned: "(\<forall>any_env. handleChatRequest request any_env = Inr chat_error_response)
      \<or> (\<exists>sent. \<forall>any_env. handleChatRequest request any_env = forwarded any_env sent)"
    using handleChatRequest_dichotomy [of request] by blast
  have call: "handleChatRequest request env = Inr chat_error_response"
    if "Request_json request = Inr parsed" and "destructure_messages parsed = Inr (JArray xs)"
      and "call_some (JArray xs) role_is_system = Inr found"
      and "AI_run env MODEL_ID
            \<lparr> messages = JArray (if found then xs else system_message # xs),
              max_tokens = 1024, stream = True \<rparr> [] = Inl e4"
  proof -
    from that(3) have "Array_some role_is_system xs = Inr found"
      by simp
    from handleChatRequest_array [OF that(1,2) this, of env] that(4)
    show ?thesis by simp
  qed
  have inference: "(\<forall>inputs. \<exists>e. AI_run env MODEL_ID inputs [] = Inl e) \<longrightarrow>
      handleChatRequest request env = Inr chat_error_response"
  proof
    assume throws: "\<forall>inputs. \<exists>e. AI_run env MODEL_ID inputs [] = Inl e"
    show "handleChatRequest request env = Inr chat_error_response"
    proof (rule disjE [OF outcomes])
      assume "\<exists>msgs s.
        AI_run env MODEL_ID \<lparr> messages = msgs, max_tokens = 1024, stream = True \<rparr> [] = Inr s
        \<and> handleChatRequest request env = Inr (chat_stream_response s)"
      then obtain msgs s where
        "AI_run env MODEL_ID \<lparr> messages = msgs, max_tokens = 1024, stream = True \<rparr> [] = Inr s"
        by blast
      moreover from throws obtain e where
        "AI_run env MODEL_ID \<lparr> messages = msgs, max_tokens = 1024, stream = True \<rparr> [] = Inl e"
        by blast
      ultimately show ?thesis by simp
    qed
  qed
  have errors: "Request_json request = Inl e1 \<longrightarrow>
        handleChatRequest request env = Inr chat_error_response"
    "Request_json request = Inr parsed \<and> destructure_messages parsed = Inl e2 \<longrightarrow>
        handleChatRequest request env = Inr chat_error_response"
    "Request_json request = Inr parsed \<and> destructure_messages parsed = Inr msgs
        \<and> call_some msgs role_is_system = Inl e3 \<longrightarrow>
        handleChatRequest request env = Inr chat_error_response"
    by (simp_all add: handleChatRequest_parse_error handleChatRequest_destructure_error
        handleChatRequest_some_error)
  from returns outcomes pinned errors call inference chat_error_response_fields(1,2)
  show ?thesis
    by blast
qed

theorem chat_errors_become_500_witness:
  "Request_json (chat_request malformed_body) = Inl SyntaxError
   \<and> handleChatRequest (chat_request malformed_body) (example_env None)
       = Inr chat_error_response
   \<and> destructure_messages JNull = Inl TypeError
   \<and> handleChatRequest (chat_request (json_body JNull)) (example_env None)
       = Inr chat_error_response
   \<and> call_some (JString ''hello'') role_is_system = Inl TypeError
   \<and> handleChatRequest
        (chat_request (json_body (JObject [(''messages'', JString ''hello'')])))
        (example_env None)
       = Inr chat_error_response
   \<and> call_some (JArray [user_message, JNull]) role_is_system = Inl TypeError
   \<and> handleChatRequest
        (chat_request (json_body (JObject [(''messages'', JArray [user_message, JNull])])))
        (example_env None)
       = Inr chat_error_response
   \<and> handleChatRequest
        (chat_request (json_body (JObject [(''messages'', JArray [user_message])])))
        offline_env
       = Inr chat_error_response
   \<and> AI_run picky_env MODEL_ID
        \<lparr> messages = JArray [system_message, user_message], max_tokens = 1024, stream = True \<rparr> []
       = Inl (ServiceError ''overloaded'')
   \<and> AI_run picky_env MODEL_ID
        \<lparr> messages = JArray [], max_tokens = 1024, stream = True \<rparr> [] = Inr [''ok'']
   \<and> handleChatRequest
        (chat_request (json_body (JObject [(''messages'', JArray [user_message])])))
        picky_env
       = Inr chat_error_response"
proof -
  have early: "Request_json (chat_request malformed_body) = Inl SyntaxError
   \<and> handleChatRequest (chat_request malformed_body) (example_env None)
       = Inr chat_error_response
   \<and> destructure_messages JNull = Inl TypeError
   \<and> handleChatRequest (chat_request (json_body JNull)) (example_env None)
       = Inr chat_error_response
   \<and> call_some (JString ''hello'') role_is_system = Inl TypeError
   \<and> handleChatRequest
        (chat_request (json_body (JObject [(''messages'', JString ''hello'')])))
        (example_env None)
       = Inr chat_error_response
   \<and> call_some (JArray [user_message, JNull]) role_is_system = Inl TypeError
   \<and> handleChatRequest
        (chat_request (json_body (JObject [(''messages'', JArray [user_message, JNull])])))
        (example_env None)
       = Inr chat_error_response
   \<and> handleChatRequest
        (chat_request (json_body (JObject [(''messages'', JArray [user_message])])))
        offline_env
       = Inr chat_error_response"
    using
      chat_errors_become_500 [where request = "chat_request malformed_body"
        and env = "example_env None" and ?e1.0 = SyntaxError]
      chat_errors_become_500 [where request = "chat_request (json_body JNull)"
        and env = "example_env None" and parsed = JNull and ?e2.0 = TypeError]
      chat_errors_become_500 [where request =
        "chat_request (json_body (JObject [(''messages'', JString ''hello'')]))"
        and env = "example_env None" and parsed = "JObject [(''messages'', JString ''hello'')]"
        and msgs = "JString ''hello''" and ?e3.0 = TypeError]
      chat_errors_become_500 [where request =
        "chat_request (json_body (JObject [(''messages'', JArray [user_message, JNull])]))"
        and env = "example_env None"
        and parsed = "JObject [(''messages'', JArray [user_message, JNull])]"
        and msgs = "JArray [user_message, JNull]" and ?e3.0 = TypeError]
      chat_errors_become_500 [where request =
        "chat_request (json_body (JObject [(''messages'', JArray [user_message])]))"
        and env = offline_env]
    by (simp add: chat_request_json json_body_def malformed_body_def destructure_messages_def
        and_then_simps role_is_system_def user_message_def offline_env_def)
  have refused: "AI_run picky_env MODEL_ID
        \<lparr> messages = JArray [system_message, user_message], max_tokens = 1024, stream = True \<rparr> []
       = Inl (ServiceError ''overloaded'')"
    and accepted: "AI_run picky_env MODEL_ID
        \<lparr> messages = JArray [], max_tokens = 1024, stream = True \<rparr> [] = Inr [''ok'']"
    by (simp_all add: picky_env_def system_message_def)
  have "Request_json (chat_request (json_body (JObject [(''messages'', JArray [user_message])])))
      = Inr (JObject [(''messages'', JArray [user_message])])"
    and "destructure_messages (JObject [(''messages'', JArray [user_message])])
      = Inr (JArray [user_message])"
    and "call_some (JArray [user_message]) role_is_system = Inr False"
    by (simp_all add: chat_request_json json_body_def destructure_messages_object
        role_is_system_def and_then_simps user_message_def)
  with refused have late: "handleChatRequest
        (chat_request (json_body (JObject [(''messages'', JArray [user_message])])))
        picky_env
       = Inr chat_error_response"
    using chat_errors_become_500 [where request =
        "chat_request (json_body (JObject [(''messages'', JArray [user_message])]))"
        and env = picky_env and parsed = "JObject [(''messages'', JArray [user_message])]"
        and xs = "[user_message]" and found = False
        and ?e4.0 = "ServiceError ''overloaded''"]
    by simp
  from early refused accepted late show ?thesis
    by blast
qed

text \<open>
  C10. Whenever the chat handler calls the inference binding, the message sequence it
  passes has an element with the role \<open>system\<close>: for every request, either the handler
  answers with the response of its \<open>catch\<close> block whatever the binding is, or there is a
  sequence with such an element that the handler passes to every binding. A body
  without the member \<open>messages\<close>, and a body whose \<open>messages\<close> is the empty array, make
  the handler pass exactly the default system message; a body whose \<open>messages\<close> is an
  array of objects always leads to the call.
\<close>

theorem inference_receives_system_message:
  "((\<forall>env. handleChatRequest request env = Inr chat_error_response)
      \<or> (\<exists>ms. (\<exists>m\<in>set ms. get_member m ''role'' = Inr (Some (JString ''system'')))
            \<and> (\<forall>env. handleChatRequest request env = forwarded env (JArray ms))))
   \<and> (Request_json request = Inr (JObject members) \<and> map_of members ''messages'' = None \<longrightarrow>
        (\<forall>env. handleChatRequest request env = forwarded env (JArray [system_message])))
   \<and> (Request_json request = Inr (JObject members)
        \<and> map_of members ''messages'' = Some (JArray []) \<longrightarrow>
        (\<forall>env. handleChatRequest request env = forwarded env (JArray [system_message])))
   \<and> (Request_json request = Inr (JObject members)
        \<and> map_of members ''messages'' = Some (JArray xs) \<and> JNull \<notin> set xs \<longrightarrow>
        (\<exists>ms. (\<exists>m\<in>set ms. get_member m ''role'' = Inr (Some (JString ''system'')))
           \<and> (\<forall>env. handleChatRequest request env = forwarded env (JArray ms))))"
proof -
  have absent: "\<forall>env. handleChatRequest request env = forwarded env (JArray [system_message])"
    if "Request_json request = Inr (JObject members)"
      and "map_of members ''messages'' = None \<or> map_of members ''messages'' = Some (JArray [])"
  proof -
    have "destructure_messages (JObject members) = Inr (JArray [])"
      using that(2) by (auto simp: destructure_messages_object)
    from handleChatRequest_array [OF that(1) this, of False] show ?thesis by simp
  qed
  have present: "\<exists>ms. (\<exists>m\<in>set ms. get_member m ''role'' = Inr (Some (JString ''system'')))
      \<and> (\<forall>env. handleChatRequest request env = forwarded env (JArray ms))"
    if "Request_json request = Inr (JObject members)"
      and "map_of members ''messages'' = Some (JArray xs)" and "JNull \<notin> set xs"
  proof -
    let ?found = "\<exists>m\<in>set xs. get_member m ''role'' = Inr (Some (JString ''system''))"
    let ?out = "if ?found then xs else system_message # xs"
    have "destructure_messages (JObject members) = Inr (JArray xs)"
      using that(2) by (simp add: destructure_messages_object)
    from handleChatRequest_array [OF that(1) this Array_some_no_null [OF that(3)]]
    have "\<forall>env. handleChatRequest request env = forwarded env (JArray ?out)"
      by blast
    moreover have "\<exists>m\<in>set ?out. get_member m ''role'' = Inr (Some (JString ''system''))"
      by (cases ?found) (auto simp: system_message_role)
    ultimately show ?thesis by blast
  qed
  from handleChatRequest_dichotomy [of request] absent present show ?thesis
    by blast
qed

theorem inference_receives_system_message_witness:
  "Request_json (chat_request (json_body (JObject [(''model'', JString ''small'')])))
       = Inr (JObject [(''model'', JString ''small'')])
   \<and> map_of [(''model'', JString ''small'')] ''messages'' = None
   \<and> handleChatRequest (chat_request (json_body (JObject [(''model'', JString ''small'')])))
        (example_env None)
       = Inr (chat_stream_response [MODEL_ID, JSON_stringify (JArray [system_message])])
   \<and> handleChatRequest (chat_request (json_body (JObject [(''messages'', JArray [])])))
        (example_env None)
       = Inr (chat_stream_response [MODEL_ID, JSON_stringify (JArray [system_message])])
   \<and> JNull \<notin> set [user_message]
   \<and> (\<exists>ms. (\<exists>m\<in>set ms. get_member m ''role'' = Inr (Some (JString ''system'')))
         \<and> handleChatRequest
              (chat_request (json_body (JObject [(''messages'', JArray [user_message])])))
              (example_env None)
             = Inr (chat_stream_response [MODEL_ID, JSON_stringify (JArray ms)]))"
proof -
  let ?no_member = "chat_request (json_body (JObject [(''model'', JString ''small'')]))"
  let ?empty = "chat_request (json_body (JObject [(''messages'', JArray [])]))"
  let ?one = "chat_request (json_body (JObject [(''messages'', JArray [user_message])]))"
  have run: "forwarded (example_env None) msgs
      = Inr (chat_stream_response [MODEL_ID, JSON_stringify msgs])" for msgs
    by (simp add: example_env_def del: JSON_stringify.simps)
  have parsed: "Request_json ?no_member = Inr (JObject [(''model'', JString ''small'')])"
    and absent: "map_of [(''model'', JString ''small'')] ''messages'' = None"
    and not_null: "JNull \<notin> set [user_message]"
    by (simp_all add: chat_request_json json_body_def user_message_def)
  have "handleChatRequest ?no_member (example_env None)
      = forwarded (example_env None) (JArray [system_message])"
    using inference_receives_system_message [where request = ?no_member
        and members = "[(''model'', JString ''small'')]"] parsed absent
    by blast
  then have first: "handleChatRequest ?no_member (example_env None)
      = Inr (chat_stream_response [MODEL_ID, JSON_stringify (JArray [system_message])])"
    unfolding run .
  have "Request_json ?empty = Inr (JObject [(''messages'', JArray [])])"
    and "map_of [(''messages'', JArray [])] ''messages'' = Some (JArray [])"
    by (simp_all add: chat_request_json json_body_def)
  then have "handleChatRequest ?empty (example_env None)
      = forwarded (example_env None) (JArray [system_message])"
    using inference_receives_system_message [where request = ?empty
        and members = "[(''messages'', JArray [])]"]
    by blast
  then have second: "handleChatRequest ?empty (example_env None)
      = Inr (chat_stream_response [MODEL_ID, JSON_stringify (JArray [system_message])])"
    unfolding run .
  have "Request_json ?one = Inr (JObject [(''messages'', JArray [user_message])])"
    and "map_of [(''messages'', JArray [user_message])] ''messages'' = Some (JArray [user_message])"
    by (simp_all add: chat_request_json json_body_def)
  with not_null obtain ms where
    ms: "\<exists>m\<in>set ms. get_member m ''role'' = Inr (Some (JString ''system''))"
    and every: "\<forall>env. handleChatRequest ?one env = forwarded env (JArray ms)"
    using inference_receives_system_message [where request = ?one
        and members = "[(''messages'', JArray [user_message])]" and xs = "[user_message]"]
    by blast
  from every have "handleChatRequest ?one (example_env None)
      = forwarded (example_env None) (JArray ms)"
    by (rule spec)
  then have "handleChatRequest ?one (example_env None)
      = Inr (chat_stream_response [MODEL_ID, JSON_stringify (JArray ms)])"
    unfolding run .
  with ms have third: "\<exists>ms. (\<exists>m\<in>set ms. get_member m ''role'' = Inr (Some (JString ''system'')))
      \<and> handleChatRequest ?one (example_env None)
          = Inr (chat_stream_response [MODEL_ID, JSON_stringify (JArray ms)])"
    by blast
  from parsed absent not_null first second third show ?thesis
    by blast
qed

section \<open>The proxy handler\<close>




text \<open>
  C7. The URL the proxy computes is the URL of the inbound request with the host name
  \<open>api.groq.com\<close>, the protocol \<open>https:\<close> and an empty port; path, query and fragment are
  those of the inbound URL, an empty query staying an empty query. Every request the
  proxy builds has this URL, and the handler calls the network fetch with the request it
  builds.
\<close>

theorem proxy_target_url:
  "newUrl request
     = (req_url request)\<lparr> hostname := ''api.groq.com'', protocol := ''https:'', port := [] \<rparr>
   \<and> hostname (newUrl request) = ''api.groq.com''
   \<and> protocol (newUrl request) = ''https:''
   \<and> port (newUrl request) = []
   \<and> pathname (newUrl request) = pathname (req_url request)
   \<and> query (newUrl request) = query (req_url request)
   \<and> fragment (newUrl request) = fragment (req_url request)
   \<and> search (newUrl request) = search (req_url request)
   \<and> hash (newUrl request) = hash (req_url request)
   \<and> href (newUrl request)
       = ''https://api.groq.com'' @ pathname (req_url request)
           @ (case query (req_url request) of None \<Rightarrow> [] | Some q \<Rightarrow> CHR ''?'' # q)
           @ (case fragment (req_url request) of None \<Rightarrow> [] | Some f \<Rightarrow> CHR ''#'' # f)
   \<and> (modifiedRequest request env = Inr out \<longrightarrow> req_url out = newUrl request)
   \<and> handleGroqProxy global_fetch request env
       = (case modifiedRequest request env of
            Inl e \<Rightarrow> Inr proxy_error_response
          | Inr sent \<Rightarrow>
              (case global_fetch sent of
                 Inl e \<Rightarrow> Inr proxy_error_response
               | Inr r \<Rightarrow> Inr r))"
proof -
  have "modifiedRequest request env = Inr out \<longrightarrow> req_url out = newUrl request"
    using modifiedRequest_sent(1) [of request env out] by blast
  then show ?thesis
    using handleGroqProxy_forwards [of global_fetch request env]
    by (simp add: newUrl_eq href_def search_def hash_def)
qed

theorem proxy_target_url_witness:
  "req_url openai_request
     = \<lparr> protocol = ''http:'', hostname = ''chat.example.com'', port = ''8787'',
         pathname = ''/openai/v1/chat/completions'', query = Some ''x=1'', fragment = None \<rparr>
   \<and> newUrl openai_request
     = \<lparr> protocol = ''https:'', hostname = ''api.groq.com'', port = [],
         pathname = ''/openai/v1/chat/completions'', query = Some ''x=1'', fragment = None \<rparr>
   \<and> href (newUrl openai_request) = ''https://api.groq.com/openai/v1/chat/completions?x=1''
   \<and> href (req_url models_request) = ''https://chat.example.com/openai/v1/models?''
   \<and> href (newUrl models_request) = ''https://api.groq.com/openai/v1/models?''
   \<and> (\<exists>sent. modifiedRequest openai_request (example_env (Some ''gsk_key'')) = Inr sent
         \<and> req_url sent = newUrl openai_request
         \<and> handleGroqProxy echo_fetch openai_request (example_env (Some ''gsk_key''))
             = echo_fetch sent)"
proof -
  have inbound: "req_url openai_request
     = \<lparr> protocol = ''http:'', hostname = ''chat.example.com'', port = ''8787'',
         pathname = ''/openai/v1/chat/completions'', query = Some ''x=1'', fragment = None \<rparr>"
    by (simp add: openai_request_def example_request_def example_url_def)
  obtain sent where
    sent: "modifiedRequest openai_request (example_env (Some ''gsk_key'')) = Inr sent"
    using openai_request_sent by blast
  note at_openai = proxy_target_url [where request = openai_request
      and env = "example_env (Some ''gsk_key'')" and global_fetch = echo_fetch and out = sent]
  from at_openai have target: "newUrl openai_request
     = \<lparr> protocol = ''https:'', hostname = ''api.groq.com'', port = [],
         pathname = ''/openai/v1/chat/completions'', query = Some ''x=1'', fragment = None \<rparr>"
    by (simp add: inbound)
  from at_openai have "href (newUrl openai_request)
      = ''https://api.groq.com'' @ pathname (req_url openai_request)
          @ (case query (req_url openai_request) of None \<Rightarrow> [] | Some q \<Rightarrow> CHR ''?'' # q)
          @ (case fragment (req_url openai_request) of None \<Rightarrow> [] | Some f \<Rightarrow> CHR ''#'' # f)"
    by blast
  then have serial:
    "href (newUrl openai_request) = ''https://api.groq.com/openai/v1/chat/completions?x=1''"
    by (simp add: inbound)
  from at_openai sent have built: "req_url sent = newUrl openai_request"
    by blast
  from at_openai sent
  have passed: "handleGroqProxy echo_fetch openai_request (example_env (Some ''gsk_key''))
      = echo_fetch sent"
    by (simp add: echo_fetch_def)
  have inbound_models:
    "href (req_url models_request) = ''https://chat.example.com/openai/v1/models?''"
    by (simp add: models_request_def href_def)
  from proxy_target_url [where request = models_request and env = "example_env None"
      and global_fetch = echo_fetch and out = sent]
  have "href (newUrl models_request)
      = ''https://api.groq.com'' @ pathname (req_url models_request)
          @ (case query (req_url models_request) of None \<Rightarrow> [] | Some q \<Rightarrow> CHR ''?'' # q)
          @ (case fragment (req_url models_request) of None \<Rightarrow> [] | Some f \<Rightarrow> CHR ''#'' # f)"
    by blast
  then have target_models:
    "href (newUrl models_request) = ''https://api.groq.com/openai/v1/models?''"
    by (simp add: models_request_def)
  from sent built passed
  have "\<exists>sent. modifiedRequest openai_request (example_env (Some ''gsk_key'')) = Inr sent
      \<and> req_url sent = newUrl openai_request
      \<and> handleGroqProxy echo_fetch openai_request (example_env (Some ''gsk_key''))
          = echo_fetch sent"
    by blast
  with inbound target serial inbound_models target_models show ?thesis
    by blast
qed




text \<open>
  C9. When building the request throws (a call of \<open>headers.set\<close> refuses the key), and
  when the network fetch throws on the request built, the proxy handler returns status
  500 with the JSON body \<open>{"error":"Failed to proxy request"}\<close>; when the fetch returns
  a response, the handler returns that response. In no case does an exception leave the
  handler.
\<close>

theorem proxy_errors_become_500:
  \<open>(modifiedRequest request env = Inl e1 \<longrightarrow>
       handleGroqProxy global_fetch request env = Inr proxy_error_response)
   \<and> (modifiedRequest request env = Inr out \<and> global_fetch out = Inl e2 \<longrightarrow>
       handleGroqProxy global_fetch request env = Inr proxy_error_response)
   \<and> (modifiedRequest request env = Inr out \<and> global_fetch out = Inr upstream \<longrightarrow>
       handleGroqProxy global_fetch request env = Inr upstream)
   \<and> (\<exists>r. handleGroqProxy global_fetch request env = Inr r)
   \<and> status proxy_error_response = 500
   \<and> res_body proxy_error_response = Some (Text ''{"error":"Failed to proxy request"}'')
   \<and> res_headers proxy_error_response = [(''content-type'', ''application/json'')]\<close>
proof -
  have "\<exists>r. handleGroqProxy global_fetch request env = Inr r"
    unfolding handleGroqProxy_forwards by (simp split: sum.splits)
  then show ?thesis
    by (simp add: handleGroqProxy_forwards proxy_error_response_fields)
qed

theorem proxy_errors_become_500_witness:
  "modifiedRequest openai_request (example_env (Some (''gsk'' @ [CHR 0x0A] @ ''key'')))
       = Inl TypeError
   \<and> handleGroqProxy echo_fetch openai_request
        (example_env (Some (''gsk'' @ [CHR 0x0A] @ ''key''))) = Inr proxy_error_response
   \<and> modifiedRequest openai_request (example_env None\<lparr> GROQ_API_KEY := Some [0x43A, 0x43B] \<rparr>)
       = Inl TypeError
   \<and> handleGroqProxy echo_fetch openai_request
        (example_env None\<lparr> GROQ_API_KEY := Some [0x43A, 0x43B] \<rparr>) = Inr proxy_error_response
   \<and> (\<exists>sent. modifiedRequest openai_request (example_env (Some ''gsk_key'')) = Inr sent
         \<and> failing_fetch sent = Inl (ServiceError ''connection refused''))
   \<and> handleGroqProxy failing_fetch openai_request (example_env (Some ''gsk_key''))
       = Inr proxy_error_response
   \<and> status proxy_error_response = 500"
proof -
  have "handleGroqProxy echo_fetch openai_request
      (example_env (Some (''gsk'' @ [CHR 0x0A] @ ''key''))) = Inr proxy_error_response"
    using proxy_errors_become_500 [where global_fetch = echo_fetch and request = openai_request
        and env = "example_env (Some (''gsk'' @ [CHR 0x0A] @ ''key''))" and ?e1.0 = TypeError]
      openai_request_refused(1)
    by blast
  moreover have "handleGroqProxy echo_fetch openai_request
      (example_env None\<lparr> GROQ_API_KEY := Some [0x43A, 0x43B] \<rparr>) = Inr proxy_error_response"
    using proxy_errors_become_500 [where global_fetch = echo_fetch and request = openai_request
        and env = "example_env None\<lparr> GROQ_API_KEY := Some [0x43A, 0x43B] \<rparr>"
        and ?e1.0 = TypeError]
      openai_request_refused(2)
    by blast
  moreover obtain sent where
    sent: "modifiedRequest openai_request (example_env (Some ''gsk_key'')) = Inr sent"
    using openai_request_sent by blast
  moreover have failing: "failing_fetch sent = Inl (ServiceError ''connection refused'')"
    by (simp add: failing_fetch_def)
  moreover from sent failing
  have "handleGroqProxy failing_fetch openai_request (example_env (Some ''gsk_key''))
      = Inr proxy_error_response"
    using proxy_errors_become_500 [where global_fetch = failing_fetch
        and request = openai_request and env = "example_env (Some ''gsk_key'')"
        and out = sent and ?e2.0 = "ServiceError ''connection refused''"]
    by blast
  moreover have "status proxy_error_response = 500"
    using proxy_errors_become_500 [where global_fetch = failing_fetch
        and request = openai_request and env = "example_env (Some ''gsk_key'')"]
    by blast
  ultimately show ?thesis
    using openai_request_refused by blast
qed

end
